theory Spec2Isabelle
  imports Main
begin

section \<open>Shopify webhook to WhatsApp relay: the two handlers of src/index.ts\<close>

text \<open>
  The program is an Express server with two POST handlers, \<^verbatim>\<open>/webhooks/checkouts/update\<close>
  and \<^verbatim>\<open>/webhooks/orders/create\<close>. Each handler checks the Shopify HMAC header, answers
  the request, and then works on the parsed payload: it resolves a phone number, builds a
  WhatsApp template message, posts it with axios and adds a document to the Firestore
  collection \<^verbatim>\<open>whatsappLogs\<close>.

  The embedding is by explicit state passing. The collection is a list of documents in
  insertion order, the axios calls made by one delivery are returned as a list, and what
  the handler cannot compute itself (the HMAC, the phone parser, the clock, the answer of
  the WhatsApp API) is an argument. A JavaScript value that may be \<^verbatim>\<open>null\<close> or
  \<^verbatim>\<open>undefined\<close> is an \<open>option\<close>; a \<^verbatim>\<open>TypeError\<close> thrown inside the async handler is a
  value of type \<open>js_error\<close>. A string is the list of the bytes of its UTF-8 encoding.

  The Firestore service is taken to be reachable and to have the composite index the
  cooldown query needs: a query returns its documents and \<^verbatim>\<open>add\<close> appends every
  document the client accepts. The answer of the WhatsApp API is read as the API documents
  it: \<^verbatim>\<open>id\<close> and \<^verbatim>\<open>message_status\<close> are strings when they are present.

  The definitions follow \<^verbatim>\<open>src/index.ts\<close>. The second source file is an earlier
  revision of it: the same checkout handler, line for line in its signature check, its
  two queries and its cooldown test, without \<^verbatim>\<open>fullName\<close> and without the order
  handler.
\<close>

subsection \<open>Payload, configuration and environment\<close>

text \<open>
  The interface \<^verbatim>\<open>ShopifyCheckout\<close> (lines 15-88). Of \<^verbatim>\<open>customer\<close>,
  \<^verbatim>\<open>shipping_address\<close> and \<^verbatim>\<open>billing_address\<close> the handlers read the same three fields
  only, so one record serves for the three.
\<close>

record contact =
  first_name :: "string option"
  last_name :: "string option"
  phone :: "string option"

record ShopifyCheckout =
  id' :: string
  customer :: "contact option"
  shipping_address :: "contact option"
  billing_address :: "contact option"
  completed_at :: "string option"
  total_price :: "string option"

text \<open>The destructured \<^verbatim>\<open>process.env\<close> (lines 95-105); only the secret has a default.\<close>

record config =
  WHATSAPP_ACCESS_TOKEN :: "string option"
  WHATSAPP_PHONE_NUMBER_ID :: "string option"
  DISCOUNT_CODE :: "string option"
  IMAGE_URL :: "string option"
  SHOPIFY_SECRET_KEY :: string
  ABANDONED_CHECKOUT_TEMPLATE :: "string option"
  ORDER_CREATE_TEMPLATE :: "string option"

text \<open>What \<^verbatim>\<open>parsePhoneNumberFromString\<close> returns when it returns an object.\<close>

record PhoneNumber =
  isValid :: bool
  number :: string

text \<open>
  The library functions the handlers call: \<^verbatim>\<open>crypto.createHmac("sha256", key).update(text).digest("base64")\<close>,
  \<^verbatim>\<open>parsePhoneNumberFromString(raw, "IN")\<close>, the rendering of
  \<^verbatim>\<open>parseFloat(s)\<close> inside a template literal, and the \<^verbatim>\<open>message\<close> of the error the
  Firestore client throws when the named field of a document is undefined.
\<close>

record platform =
  hmac_sha256_base64 :: "string \<Rightarrow> string \<Rightarrow> string"
  parsePhoneNumberFromString :: "string \<Rightarrow> PhoneNumber option"
  parseFloat_text :: "string \<Rightarrow> string"
  undefined_value_message :: "string \<Rightarrow> string"

text \<open>
  The request as the handler reads it: the header \<^verbatim>\<open>X-Shopify-Hmac-Sha256\<close>, the
  property \<^verbatim>\<open>req.rawBody\<close> and the parsed \<^verbatim>\<open>req.body\<close>. Only the \<^verbatim>\<open>verify\<close>
  hook of \<^verbatim>\<open>express.json\<close> (lines 154-160) sets \<^verbatim>\<open>rawBody\<close>, and the hook runs only
  when the middleware reads the body: for a request with another content type, or with
  no body, the property is undefined (\<open>None\<close>). When it is set, the field holds the text
  \<^verbatim>\<open>req.rawBody.toString("utf8")\<close>.
\<close>

record Request =
  hmac_header :: "string option"
  rawBody :: "string option"
  body :: ShopifyCheckout

subsection \<open>The outbound message\<close>

datatype parameter =
  Image "string option"
| Text "string option"
| Coupon_code "string option"

datatype component =
  Header "parameter list"
| Body "parameter list"
| Button string nat "parameter list"

record messageData =
  messaging_product :: string
  to :: string
  template_name :: "string option"
  language_code :: string
  components :: "component list"

record axios_post =
  url :: string
  authorization :: string
  data :: messageData

text \<open>
  The answer of \<^verbatim>\<open>axios.post\<close>: a response, of which the handlers read
  \<^verbatim>\<open>data.messages\<close> only (the empty list when any link of the optional chain is
  missing), or a rejection, of which they read \<^verbatim>\<open>error.response?.data\<close> and
  \<^verbatim>\<open>error.message\<close>.
\<close>

record wa_message =
  wa_id :: "string option"
  message_status :: "string option"

datatype axios_result =
  Resolved "wa_message list"
| Rejected "string option" string

subsection \<open>The collection whatsappLogs\<close>

text \<open>
  The \<^verbatim>\<open>timestamp\<close> field of a document: absent, \<^verbatim>\<open>null\<close>, or a Firestore
  timestamp in milliseconds. A document has the fields both writes of the handlers use;
  \<open>None\<close> is a field the write leaves out.
\<close>

datatype timestamp_field = Missing | Null | Timestamp int

record log_entry =
  fullName :: string
  phone :: string
  messageId :: "string option"
  checkoutId :: string
  status :: "string option"
  timestamp :: timestamp_field
  error :: "string option"

text \<open>
  The three query steps the checkout handler chains (lines 215-218 and 226-231).
  \<^verbatim>\<open>where(f, "==", v)\<close> keeps the documents whose field equals \<^verbatim>\<open>v\<close>.
  Firestore's \<^verbatim>\<open>orderBy("timestamp", "desc")\<close> returns only the documents that have the
  field, the largest timestamp first and \<^verbatim>\<open>null\<close> after every timestamp.
  \<^verbatim>\<open>limit(n)\<close> keeps the first \<open>n\<close>.
\<close>

definition where_checkoutId :: "string \<Rightarrow> log_entry list \<Rightarrow> log_entry list" where
  "where_checkoutId v docs = filter (\<lambda>d. checkoutId d = v) docs"

definition where_phone :: "string \<Rightarrow> log_entry list \<Rightarrow> log_entry list" where
  "where_phone v docs = filter (\<lambda>d. log_entry.phone d = v) docs"

fun millis :: "timestamp_field \<Rightarrow> int" where
  "millis (Timestamp t) = t"
| "millis _ = 0"

fun is_Timestamp :: "timestamp_field \<Rightarrow> bool" where
  "is_Timestamp (Timestamp t) = True"
| "is_Timestamp _ = False"

definition orderBy_timestamp_desc :: "log_entry list \<Rightarrow> log_entry list" where
  "orderBy_timestamp_desc docs =
     rev (sort_key (\<lambda>d. millis (timestamp d)) (filter (\<lambda>d. is_Timestamp (timestamp d)) docs))
     @ filter (\<lambda>d. timestamp d = Null) docs"

definition limit :: "nat \<Rightarrow> log_entry list \<Rightarrow> log_entry list" where
  "limit n docs = take n docs"

subsection \<open>JavaScript helpers\<close>

text \<open>Truthiness of a value of type \<^verbatim>\<open>string | undefined\<close>: present and not empty.\<close>

fun truthy :: "string option \<Rightarrow> bool" where
  "truthy None = False"
| "truthy (Some s) = (s \<noteq> [])"

text \<open>The operator \<^verbatim>\<open>??\<close>: the right operand only when the left is null or undefined.\<close>

fun nullish :: "'a option \<Rightarrow> 'a option \<Rightarrow> 'a option" where
  "nullish None b = b"
| "nullish (Some a) b = Some a"

fun or_else :: "'a option \<Rightarrow> 'a \<Rightarrow> 'a" where
  "or_else None b = b"
| "or_else (Some a) b = a"

text \<open>Optional chaining \<^verbatim>\<open>x?.f\<close> on an optional object with an optional field.\<close>

fun chain :: "'a option \<Rightarrow> ('a \<Rightarrow> 'b option) \<Rightarrow> 'b option" where
  "chain None f = None"
| "chain (Some x) f = f x"

text \<open>An environment variable inside a template literal: \<^verbatim>\<open>undefined\<close> prints its name.\<close>

fun interpolate :: "string option \<Rightarrow> string" where
  "interpolate None = ''undefined''"
| "interpolate (Some s) = s"

text \<open>
  \<^verbatim>\<open>String.prototype.trim\<close> removes white space and line terminators from both ends:
  the code points U+0009 to U+000D, U+0020, U+00A0, U+1680, U+2000 to U+200A, U+2028,
  U+2029, U+202F, U+205F, U+3000 and U+FEFF, listed here by their UTF-8 encodings.
\<close>

definition white_space :: "string list" where
  "white_space =
     [ [CHR 0x09], [CHR 0x0A], [CHR 0x0B], [CHR 0x0C], [CHR 0x0D], [CHR 0x20],
       [CHR 0xC2, CHR 0xA0],
       [CHR 0xE1, CHR 0x9A, CHR 0x80],
       [CHR 0xE2, CHR 0x80, CHR 0x80], [CHR 0xE2, CHR 0x80, CHR 0x81],
       [CHR 0xE2, CHR 0x80, CHR 0x82], [CHR 0xE2, CHR 0x80, CHR 0x83],
       [CHR 0xE2, CHR 0x80, CHR 0x84], [CHR 0xE2, CHR 0x80, CHR 0x85],
       [CHR 0xE2, CHR 0x80, CHR 0x86], [CHR 0xE2, CHR 0x80, CHR 0x87],
       [CHR 0xE2, CHR 0x80, CHR 0x88], [CHR 0xE2, CHR 0x80, CHR 0x89],
       [CHR 0xE2, CHR 0x80, CHR 0x8A],
       [CHR 0xE2, CHR 0x80, CHR 0xA8], [CHR 0xE2, CHR 0x80, CHR 0xA9],
       [CHR 0xE2, CHR 0x80, CHR 0xAF],
       [CHR 0xE2, CHR 0x81, CHR 0x9F],
       [CHR 0xE3, CHR 0x80, CHR 0x80],
       [CHR 0xEF, CHR 0xBB, CHR 0xBF] ]"

text \<open>
  Removing from the front every leading member of a list of encodings. Each step removes
  at least one byte, so \<open>length s\<close> steps are enough for the text \<open>s\<close>.
\<close>

primrec strip :: "string list \<Rightarrow> nat \<Rightarrow> string \<Rightarrow> string" where
  "strip ws 0 s = s"
| "strip ws (Suc n) s =
     (case find (\<lambda>w. take (length w) s = w) ws of
        None \<Rightarrow> s
      | Some w \<Rightarrow> strip ws n (drop (length w) s))"

definition trimStart :: "string \<Rightarrow> string" where
  "trimStart s = strip white_space (length s) s"

definition trimEnd :: "string \<Rightarrow> string" where
  "trimEnd s = rev (strip (map rev white_space) (length s) (rev s))"

definition trim :: "string \<Rightarrow> string" where
  "trim s = trimEnd (trimStart s)"

subsection \<open>getFullName (lines 126-142)\<close>

definition name_of :: "contact option \<Rightarrow> string" where
  "name_of p =
     trim (or_else (chain p first_name) [] @ '' '' @ or_else (chain p last_name) [])"

definition getFullName :: "ShopifyCheckout \<Rightarrow> string" where
  "getFullName checkout =
     (let nameFromCustomer = name_of (customer checkout);
          nameFromShipping = name_of (shipping_address checkout);
          nameFromBilling = name_of (billing_address checkout)
      in if nameFromCustomer \<noteq> [] then nameFromCustomer
         else if nameFromShipping \<noteq> [] then nameFromShipping
         else if nameFromBilling \<noteq> [] then nameFromBilling
         else ''Unknown User'')"

subsection \<open>Verification of the signature (lines 167-183 and 321-337)\<close>

datatype js_error = TypeError

text \<open>
  Both handlers start with the same lines: \<^verbatim>\<open>403\<close> when the header or the secret is
  falsy; then \<^verbatim>\<open>req.rawBody.toString("utf8")\<close>, which throws a \<^verbatim>\<open>TypeError\<close> when
  \<^verbatim>\<open>rawBody\<close> is undefined, before any status is sent; \<^verbatim>\<open>403\<close> when the computed
  digest is not the header (\<^verbatim>\<open>!==\<close>); otherwise \<^verbatim>\<open>200\<close>, sent before the payload is
  looked at.
\<close>

definition sendStatus :: "config \<Rightarrow> platform \<Rightarrow> Request \<Rightarrow> js_error + nat" where
  "sendStatus cfg plat req =
     (case hmac_header req of
        None \<Rightarrow> Inr 403
      | Some hmac \<Rightarrow>
          if hmac = [] \<or> SHOPIFY_SECRET_KEY cfg = [] then Inr 403
          else (case rawBody req of
                  None \<Rightarrow> Inl TypeError
                | Some text \<Rightarrow>
                    let computedHmac = hmac_sha256_base64 plat (SHOPIFY_SECRET_KEY cfg) text
                    in if computedHmac \<noteq> hmac then Inr 403 else Inr 200))"

subsection \<open>Fields read from the payload\<close>

text \<open>Lines 193-196 and 342-345.\<close>

definition rawPhone :: "ShopifyCheckout \<Rightarrow> string option" where
  "rawPhone checkout =
     nullish (chain (customer checkout) contact.phone)
       (nullish (chain (shipping_address checkout) contact.phone)
                (chain (billing_address checkout) contact.phone))"

text \<open>Lines 212 and 360.\<close>

definition customerName :: "ShopifyCheckout \<Rightarrow> string" where
  "customerName checkout = or_else (chain (customer checkout) first_name) ''there''"

subsection \<open>The two template messages (lines 240-276 and 363-392)\<close>

definition checkout_messageData :: "config \<Rightarrow> string \<Rightarrow> string \<Rightarrow> messageData" where
  "checkout_messageData cfg sanitizedPhone name =
     \<lparr> messaging_product = ''whatsapp'',
       to = sanitizedPhone,
       template_name = ABANDONED_CHECKOUT_TEMPLATE cfg,
       language_code = ''en_US'',
       components =
         [ Header [Image (IMAGE_URL cfg)],
           Body [Text (Some name), Text (DISCOUNT_CODE cfg)],
           Button ''COPY_CODE'' 0 [Coupon_code (DISCOUNT_CODE cfg)] ] \<rparr>"

definition order_messageData ::
  "config \<Rightarrow> platform \<Rightarrow> string \<Rightarrow> string \<Rightarrow> ShopifyCheckout \<Rightarrow> messageData" where
  "order_messageData cfg plat sanitizedPhone name checkout =
     (let totalAmount = parseFloat_text plat (or_else (total_price checkout) ''0'')
      in \<lparr> messaging_product = ''whatsapp'',
            to = sanitizedPhone,
            template_name = ORDER_CREATE_TEMPLATE cfg,
            language_code = ''en'',
            components =
              [ Header [Image (IMAGE_URL cfg)],
                Body [Text (Some name), Text (Some (id' checkout)), Text (Some totalAmount)] ] \<rparr>)"

definition post_request :: "config \<Rightarrow> messageData \<Rightarrow> axios_post" where
  "post_request cfg m =
     \<lparr> url = ''https://graph.facebook.com/v22.0/''
               @ interpolate (WHATSAPP_PHONE_NUMBER_ID cfg) @ ''/messages'',
       authorization = ''Bearer '' @ interpolate (WHATSAPP_ACCESS_TOKEN cfg),
       data = m \<rparr>"

subsection \<open>Sending and logging (lines 278-312 and 394-427)\<close>

text \<open>
  What one delivery reads from outside: \<^verbatim>\<open>new Date()\<close> at the cooldown test, the answer
  of the WhatsApp API to the post, and \<^verbatim>\<open>admin.firestore.Timestamp.now()\<close> in the
  \<^verbatim>\<open>catch\<close> branch.
\<close>

record world =
  now :: int
  answer :: "axios_post \<Rightarrow> axios_result"
  timestamp_now :: int

text \<open>
  How a handler ends. \<open>MessageSent\<close>: the API answered and the document of the
  \<^verbatim>\<open>try\<close> block was added. \<open>SentLoggedFailed\<close>: the API answered, the \<^verbatim>\<open>add\<close> of the
  \<^verbatim>\<open>try\<close> block threw, and the \<^verbatim>\<open>catch\<close> block added its document. \<open>SendFailed\<close>:
  the post was rejected and the \<^verbatim>\<open>catch\<close> block added its document.
\<close>

datatype outcome =
  Forbidden
| AlreadyCompleted
| NoPhone
| NotParsed
| InvalidPhone
| AlreadyProcessed
| RateLimited
| MessageSent
| SentLoggedFailed
| SendFailed
| Threw js_error

text \<open>
  The result of one delivery: the status the handler sent to Shopify (\<open>None\<close> when it
  sent none), how the handler ended, the collection afterwards and the posts made.
\<close>

record run =
  status_code :: "nat option"
  outcome :: outcome
  whatsappLogs :: "log_entry list"
  posts :: "axios_post list"

text \<open>The document added after a response (lines 292-298 and 408-414).\<close>

definition sent_entry :: "string \<Rightarrow> string \<Rightarrow> string \<Rightarrow> wa_message list \<Rightarrow> log_entry" where
  "sent_entry name sanitizedPhone cid messages =
     \<lparr> fullName = name,
       phone = sanitizedPhone,
       messageId = chain (case messages of [] \<Rightarrow> None | m # _ \<Rightarrow> Some m) wa_id,
       checkoutId = cid,
       status = chain (case messages of [] \<Rightarrow> None | m # _ \<Rightarrow> Some m) message_status,
       timestamp = Missing,
       error = None \<rparr>"

text \<open>The document added in the \<^verbatim>\<open>catch\<close> branch (lines 300-309 and 416-426).\<close>

definition failed_entry ::
  "string \<Rightarrow> string \<Rightarrow> string \<Rightarrow> int \<Rightarrow> string option \<Rightarrow> string \<Rightarrow> log_entry" where
  "failed_entry name sanitizedPhone cid t response_data message =
     (let errorMsg = or_else response_data message
      in \<lparr> fullName = name,
            phone = sanitizedPhone,
            messageId = None,
            checkoutId = cid,
            status = Some ''failed'',
            timestamp = Timestamp t,
            error = Some errorMsg \<rparr>)"

text \<open>
  \<^verbatim>\<open>add\<close> of the Firestore client (no \<^verbatim>\<open>ignoreUndefinedProperties\<close> is set, line 152)
  throws when a field of the document is given as undefined, naming the first such field;
  otherwise it appends the document. Of the document of the \<^verbatim>\<open>try\<close> block only
  \<^verbatim>\<open>messageId\<close> and \<^verbatim>\<open>status\<close> can be undefined, in this order; every field of the
  document of the \<^verbatim>\<open>catch\<close> block is defined.
\<close>

definition undefined_field :: "log_entry \<Rightarrow> string option" where
  "undefined_field d =
     (if messageId d = None then Some ''messageId''
      else if status d = None then Some ''status''
      else None)"

text \<open>
  The \<^verbatim>\<open>try\<close>/\<^verbatim>\<open>catch\<close> block, the same text in both handlers. The \<^verbatim>\<open>catch\<close> block
  runs when the post is rejected, and also when the \<^verbatim>\<open>add\<close> of the \<^verbatim>\<open>try\<close> block
  throws; the error it then reads has no \<^verbatim>\<open>response\<close>, so \<^verbatim>\<open>errorMsg\<close> is its message.
\<close>

definition send_and_log ::
  "config \<Rightarrow> platform \<Rightarrow> world \<Rightarrow> messageData \<Rightarrow> string \<Rightarrow> string \<Rightarrow> string \<Rightarrow>
     log_entry list \<Rightarrow> run" where
  "send_and_log cfg plat w m name sanitizedPhone cid docs =
     (let request = post_request cfg m
      in case answer w request of
           Resolved messages \<Rightarrow>
             (let d = sent_entry name sanitizedPhone cid messages
              in case undefined_field d of
                   None \<Rightarrow>
                     \<lparr> status_code = Some 200, outcome = MessageSent,
                       whatsappLogs = docs @ [d], posts = [request] \<rparr>
                 | Some field \<Rightarrow>
                     \<lparr> status_code = Some 200, outcome = SentLoggedFailed,
                       whatsappLogs =
                         docs @ [failed_entry name sanitizedPhone cid (timestamp_now w) None
                                   (undefined_value_message plat field)],
                       posts = [request] \<rparr>)
         | Rejected response_data message \<Rightarrow>
             \<lparr> status_code = Some 200, outcome = SendFailed,
               whatsappLogs = docs @ [failed_entry name sanitizedPhone cid (timestamp_now w)
                                        response_data message],
               posts = [request] \<rparr>)"

text \<open>A handler that returns, or throws, after the status was sent and before any post.\<close>

definition stop :: "outcome \<Rightarrow> log_entry list \<Rightarrow> run" where
  "stop r docs = \<lparr> status_code = Some 200, outcome = r, whatsappLogs = docs, posts = [] \<rparr>"

text \<open>The two ways a handler ends before the payload is looked at.\<close>

definition rejected :: "log_entry list \<Rightarrow> run" where
  "rejected docs =
     \<lparr> status_code = Some 403, outcome = Forbidden, whatsappLogs = docs, posts = [] \<rparr>"

definition unanswered :: "js_error \<Rightarrow> log_entry list \<Rightarrow> run" where
  "unanswered e docs =
     \<lparr> status_code = None, outcome = Threw e, whatsappLogs = docs, posts = [] \<rparr>"

subsection \<open>The cooldown test (lines 233-238)\<close>

text \<open>
  Line 233 reads \<^verbatim>\<open>recentMessages.docs[0].data().timestamp.toDate()\<close> before line 235
  tests \<^verbatim>\<open>!recentMessages.empty\<close>: with no document \<^verbatim>\<open>docs[0]\<close> is undefined, and
  with a document whose \<^verbatim>\<open>timestamp\<close> is undefined or null there is no
  \<^verbatim>\<open>toDate\<close>; both throw a \<^verbatim>\<open>TypeError\<close>. The result \<open>Inr True\<close> is the early return
  of line 237.
\<close>

definition cooldown :: "int \<Rightarrow> log_entry list \<Rightarrow> js_error + bool" where
  "cooldown now_ms docs =
     (case docs of
        [] \<Rightarrow> Inl TypeError
      | d # _ \<Rightarrow>
          (case timestamp d of
             Timestamp hh \<Rightarrow> Inr (docs \<noteq> [] \<and> now_ms - hh < 24 * 60 * 60 * 1000)
           | _ \<Rightarrow> Inl TypeError))"

subsection \<open>POST /webhooks/checkouts/update (lines 162-316)\<close>

definition checkouts_update ::
  "config \<Rightarrow> platform \<Rightarrow> world \<Rightarrow> Request \<Rightarrow> log_entry list \<Rightarrow> run" where
  "checkouts_update cfg plat w req docs =
     (case sendStatus cfg plat req of
        Inl e \<Rightarrow> unanswered e docs
      | Inr code \<Rightarrow>
          if code = 403 then rejected docs
          else
            let checkout = body req; cid = id' checkout in
            if truthy (completed_at checkout) then stop AlreadyCompleted docs
            else if \<not> truthy (rawPhone checkout) then stop NoPhone docs
            else
              let phoneNumber = parsePhoneNumberFromString plat (or_else (rawPhone checkout) []);
                  name = getFullName checkout
              in (case phoneNumber of
                    None \<Rightarrow> stop NotParsed docs
                  | Some pn \<Rightarrow>
                      if \<not> isValid pn then stop InvalidPhone docs
                      else
                        let sanitizedPhone = number pn;
                            existing = where_checkoutId cid docs
                        in if existing \<noteq> [] then stop AlreadyProcessed docs
                           else
                             let recentMessages =
                                   limit 1 (orderBy_timestamp_desc
                                              (where_phone sanitizedPhone docs))
                             in (case cooldown (now w) recentMessages of
                                   Inl e \<Rightarrow> stop (Threw e) docs
                                 | Inr blocked \<Rightarrow>
                                     if blocked then stop RateLimited docs
                                     else
                                       send_and_log cfg plat w
                                         (checkout_messageData cfg sanitizedPhone
                                            (customerName checkout))
                                         name sanitizedPhone cid docs)))"

subsection \<open>POST /webhooks/orders/create (lines 318-430)\<close>

definition orders_create ::
  "config \<Rightarrow> platform \<Rightarrow> world \<Rightarrow> Request \<Rightarrow> log_entry list \<Rightarrow> run" where
  "orders_create cfg plat w req docs =
     (case sendStatus cfg plat req of
        Inl e \<Rightarrow> unanswered e docs
      | Inr code \<Rightarrow>
          if code = 403 then rejected docs
          else
            let checkout = body req;
                name = getFullName checkout
            in if \<not> truthy (rawPhone checkout) then stop NoPhone docs
               else
                 let phoneNumber = parsePhoneNumberFromString plat (or_else (rawPhone checkout) [])
                 in (case phoneNumber of
                       None \<Rightarrow> stop NotParsed docs
                     | Some pn \<Rightarrow>
                         if \<not> isValid pn then stop InvalidPhone docs
                         else
                           let sanitizedPhone = number pn
                           in send_and_log cfg plat w
                                (order_messageData cfg plat sanitizedPhone
                                   (customerName checkout) checkout)
                                name sanitizedPhone (id' checkout) docs))"

subsection \<open>The resolution order in the words of the specification\<close>

text \<open>
  "First present wins": the first value of a list of candidates that is neither null nor
  undefined. It is compared below with \<open>rawPhone\<close>, which is written from the source.
\<close>

fun first_present :: "'a option list \<Rightarrow> 'a option" where
  "first_present [] = None"
| "first_present (None # xs) = first_present xs"
| "first_present (Some x # xs) = Some x"


subsection \<open>Concrete inputs\<close>

text \<open>
  A configuration, stand-ins for the library functions, two answers of the WhatsApp API,
  and the payloads of the scenarios: the checkout \<^verbatim>\<open>chk_1\<close> and the order
  \<^verbatim>\<open>ord_1\<close> for the recipient \<^verbatim>\<open>+919876543210\<close>.
\<close>

definition example_config :: config where
  "example_config =
     \<lparr> WHATSAPP_ACCESS_TOKEN = Some ''token'',
       WHATSAPP_PHONE_NUMBER_ID = Some ''1055'',
       DISCOUNT_CODE = Some ''SAVE10'',
       IMAGE_URL = Some ''https://cdn.example/banner.png'',
       SHOPIFY_SECRET_KEY = ''shpss'',
       ABANDONED_CHECKOUT_TEMPLATE = Some ''abd_chk'',
       ORDER_CREATE_TEMPLATE = Some ''order_created'' \<rparr>"

fun example_hmac :: "string \<Rightarrow> string \<Rightarrow> string" where
  "example_hmac k text = k @ ''/'' @ text"

fun example_parse :: "string \<Rightarrow> PhoneNumber option" where
  "example_parse raw =
     (if raw = ''+919876543210'' then Some \<lparr> isValid = True, number = raw \<rparr>
      else if raw = ''12'' then Some \<lparr> isValid = False, number = ''+9112'' \<rparr>
      else None)"

text \<open>
  The rendering of \<^verbatim>\<open>parseFloat\<close> at the two texts the scenarios give it: the price
  \<^verbatim>\<open>499.00\<close> prints as \<^verbatim>\<open>499\<close> and the default \<^verbatim>\<open>0\<close> as \<^verbatim>\<open>0\<close>. Nothing
  below evaluates it at another text.
\<close>

fun example_parseFloat :: "string \<Rightarrow> string" where
  "example_parseFloat s = (if s = ''499.00'' then ''499'' else if s = ''0'' then ''0'' else ''NaN'')"

fun example_message :: "string \<Rightarrow> string" where
  "example_message field =
     ''Value for argument \"data\" is not a valid Firestore document. ''
     @ ''Cannot use \"undefined\" as a Firestore value (found in field \"'' @ field @ ''\"). ''
     @ ''If you want to ignore undefined values, enable `ignoreUndefinedProperties`.''"

definition example_platform :: platform where
  "example_platform =
     \<lparr> hmac_sha256_base64 = example_hmac,
       parsePhoneNumberFromString = example_parse,
       parseFloat_text = example_parseFloat,
       undefined_value_message = example_message \<rparr>"

fun accepted :: "axios_post \<Rightarrow> axios_result" where
  "accepted r = Resolved [\<lparr> wa_id = Some ''wamid.1'', message_status = Some ''accepted'' \<rparr>]"

fun refused :: "axios_post \<Rightarrow> axios_result" where
  "refused r = Rejected None ''Network Error''"

text \<open>An answer whose first message has an id and no \<^verbatim>\<open>message_status\<close>.\<close>

fun accepted_without_status :: "axios_post \<Rightarrow> axios_result" where
  "accepted_without_status r = Resolved [\<lparr> wa_id = Some ''wamid.1'', message_status = None \<rparr>]"

definition example_world :: world where
  "example_world = \<lparr> now = 1700003600000, answer = accepted, timestamp_now = 1700003600500 \<rparr>"

definition failing_world :: world where
  "failing_world = \<lparr> now = 1700003600000, answer = refused, timestamp_now = 1700003600500 \<rparr>"

definition terse_world :: world where
  "terse_world =
     \<lparr> now = 1700003600000, answer = accepted_without_status, timestamp_now = 1700003600500 \<rparr>"

definition chk_1 :: ShopifyCheckout where
  "chk_1 =
     \<lparr> id' = ''chk_1'',
       customer = Some \<lparr> first_name = None, last_name = None,
                         contact.phone = Some ''+919876543210'' \<rparr>,
       shipping_address = Some \<lparr> first_name = Some ''Asha'', last_name = Some ''Rao'',
                                 contact.phone = None \<rparr>,
       billing_address = None,
       completed_at = None,
       total_price = Some ''499.00'' \<rparr>"

text \<open>The same checkout with another name on the shipping address.\<close>

definition chk_1_renamed :: ShopifyCheckout where
  "chk_1_renamed =
     chk_1 \<lparr> shipping_address := Some \<lparr> first_name = Some ''Ravi'', last_name = Some ''Iyer'',
                                          contact.phone = None \<rparr> \<rparr>"

definition ord_1 :: ShopifyCheckout where
  "ord_1 =
     \<lparr> id' = ''ord_1'',
       customer = Some \<lparr> first_name = Some ''Asha'', last_name = Some ''Rao'',
                         contact.phone = Some ''+919876543210'' \<rparr>,
       shipping_address = None,
       billing_address = None,
       completed_at = None,
       total_price = Some ''499.00'' \<rparr>"

text \<open>The order with \<^verbatim>\<open>completed_at\<close> set.\<close>

definition ord_completed :: ShopifyCheckout where
  "ord_completed = ord_1 \<lparr> completed_at := Some ''2024-01-01T10:00:00Z'' \<rparr>"

text \<open>
  A checkout whose \<^verbatim>\<open>customer.phone\<close> is the empty string and whose shipping address
  has a phone, and the same checkout with no \<^verbatim>\<open>customer.phone\<close> at all.
\<close>

definition chk_empty_phone :: ShopifyCheckout where
  "chk_empty_phone =
     \<lparr> id' = ''chk_2'',
       customer = Some \<lparr> first_name = Some ''Asha'', last_name = None,
                         contact.phone = Some [] \<rparr>,
       shipping_address = Some \<lparr> first_name = None, last_name = None,
                                 contact.phone = Some ''+919876543210'' \<rparr>,
       billing_address = None,
       completed_at = None,
       total_price = None \<rparr>"

definition chk_absent_phone :: ShopifyCheckout where
  "chk_absent_phone =
     chk_empty_phone \<lparr> customer := Some \<lparr> first_name = Some ''Asha'', last_name = None,
                                          contact.phone = None \<rparr> \<rparr>"

text \<open>
  A request carrying the payload, signed with the example secret; the same request with
  no signature header; one whose header was computed over another body; and one with a
  signature header whose body \<^verbatim>\<open>express.json\<close> did not read.
\<close>

definition signed :: "ShopifyCheckout \<Rightarrow> Request" where
  "signed c = \<lparr> hmac_header = Some ''shpss/payload'', rawBody = Some ''payload'', body = c \<rparr>"

definition unsigned :: "ShopifyCheckout \<Rightarrow> Request" where
  "unsigned c = \<lparr> hmac_header = None, rawBody = Some ''payload'', body = c \<rparr>"

definition forged :: "ShopifyCheckout \<Rightarrow> Request" where
  "forged c = \<lparr> hmac_header = Some ''shpss/other'', rawBody = Some ''payload'', body = c \<rparr>"

definition unread :: "ShopifyCheckout \<Rightarrow> Request" where
  "unread c = \<lparr> hmac_header = Some ''shpss/payload'', rawBody = None, body = c \<rparr>"

text \<open>
  An earlier document for the same recipient under the event id \<^verbatim>\<open>chk_0\<close>, with the
  given \<^verbatim>\<open>timestamp\<close> field.
\<close>

definition prior :: "timestamp_field \<Rightarrow> log_entry" where
  "prior t =
     \<lparr> fullName = ''Asha Rao'', phone = ''+919876543210'', messageId = Some ''wamid.0'',
       checkoutId = ''chk_0'', status = Some ''accepted'', timestamp = t, error = None \<rparr>"

section \<open>Properties\<close>

subsection \<open>Auxiliary facts\<close>

lemmas example_defs =
  example_config_def example_platform_def example_world_def failing_world_def terse_world_def
  signed_def unsigned_def forged_def unread_def chk_1_def chk_1_renamed_def ord_1_def
  ord_completed_def
  chk_empty_phone_def chk_absent_phone_def prior_def

lemmas handler_defs =
  checkouts_update_def orders_create_def sendStatus_def rawPhone_def getFullName_def name_of_def
  trim_def trimStart_def trimEnd_def white_space_def where_checkoutId_def where_phone_def
  limit_def orderBy_timestamp_desc_def cooldown_def send_and_log_def undefined_field_def
  stop_def rejected_def unanswered_def post_request_def checkout_messageData_def
  order_messageData_def customerName_def sent_entry_def failed_entry_def Let_def

lemma stop_fields [simp]:
  "status_code (stop r docs) = Some 200" "outcome (stop r docs) = r"
  "whatsappLogs (stop r docs) = docs" "posts (stop r docs) = []"
  by (simp_all add: stop_def)

lemma rejected_fields [simp]:
  "status_code (rejected docs) = Some 403" "outcome (rejected docs) = Forbidden"
  "whatsappLogs (rejected docs) = docs" "posts (rejected docs) = []"
  by (simp_all add: rejected_def)

lemma unanswered_fields [simp]:
  "status_code (unanswered e docs) = None" "outcome (unanswered e docs) = Threw e"
  "whatsappLogs (unanswered e docs) = docs" "posts (unanswered e docs) = []"
  by (simp_all add: unanswered_def)

lemma sent_entry_fields [simp]:
  "fullName (sent_entry n p cid ms) = n" "log_entry.phone (sent_entry n p cid ms) = p"
  "checkoutId (sent_entry n p cid ms) = cid" "timestamp (sent_entry n p cid ms) = Missing"
  by (simp_all add: sent_entry_def)

lemma failed_entry_fields [simp]:
  "fullName (failed_entry n p cid t rd msg) = n"
  "log_entry.phone (failed_entry n p cid t rd msg) = p"
  "checkoutId (failed_entry n p cid t rd msg) = cid"
  "timestamp (failed_entry n p cid t rd msg) = Timestamp t"
  "status (failed_entry n p cid t rd msg) = Some ''failed''"
  "error (failed_entry n p cid t rd msg) = Some (or_else rd msg)"
  by (simp_all add: failed_entry_def Let_def)

lemma where_checkoutId_append [simp]:
  "where_checkoutId i (xs @ ys) = where_checkoutId i xs @ where_checkoutId i ys"
  by (simp add: where_checkoutId_def)

lemma where_checkoutId_single: "checkoutId e = i \<Longrightarrow> where_checkoutId i [e] = [e]"
  by (simp add: where_checkoutId_def)

text \<open>
  The document the \<^verbatim>\<open>try\<close>/\<^verbatim>\<open>catch\<close> block adds, by the answer of the API.
\<close>

lemma undefined_field_None:
  "undefined_field d = None \<longleftrightarrow> messageId d \<noteq> None \<and> status d \<noteq> None"
  by (simp add: undefined_field_def)

lemma send_and_log_status [simp]:
  "status_code (send_and_log cfg plat w m n p cid docs) = Some 200"
  by (simp add: send_and_log_def Let_def split: axios_result.splits option.splits)

lemma send_and_log_posts [simp]:
  "posts (send_and_log cfg plat w m n p cid docs) = [post_request cfg m]"
  by (simp add: send_and_log_def Let_def split: axios_result.splits option.splits)

lemma send_and_log_outcome:
  "outcome (send_and_log cfg plat w m n p cid docs) \<in> {MessageSent, SentLoggedFailed, SendFailed}"
  by (simp add: send_and_log_def Let_def split: axios_result.splits option.splits)

lemma send_and_log_logs:
  "whatsappLogs (send_and_log cfg plat w m n p cid docs) =
     docs @ [case answer w (post_request cfg m) of
               Resolved messages \<Rightarrow>
                 (case undefined_field (sent_entry n p cid messages) of
                    None \<Rightarrow> sent_entry n p cid messages
                  | Some field \<Rightarrow>
                      failed_entry n p cid (timestamp_now w) None
                        (undefined_value_message plat field))
             | Rejected response_data message \<Rightarrow>
                 failed_entry n p cid (timestamp_now w) response_data message]"
  by (simp add: send_and_log_def Let_def split: axios_result.splits option.splits)

lemma send_and_log_one_document:
  "\<exists>e. whatsappLogs (send_and_log cfg plat w m n p cid docs) = docs @ [e]
       \<and> fullName e = n \<and> log_entry.phone e = p \<and> checkoutId e = cid"
  by (simp add: send_and_log_logs split: axios_result.splits option.splits)

lemma send_and_log_sent:
  assumes "outcome (send_and_log cfg plat w m n p cid docs) = MessageSent"
  shows "\<exists>e i s. whatsappLogs (send_and_log cfg plat w m n p cid docs) = docs @ [e]
           \<and> timestamp e = Missing \<and> messageId e = Some i \<and> status e = Some s
           \<and> error e = None"
  using assms
  by (auto simp add: send_and_log_def Let_def undefined_field_def sent_entry_def
        split: axios_result.splits option.splits if_splits)

lemma send_and_log_failed:
  assumes "outcome (send_and_log cfg plat w m n p cid docs) \<in> {SentLoggedFailed, SendFailed}"
  shows "\<exists>e msg. whatsappLogs (send_and_log cfg plat w m n p cid docs) = docs @ [e]
           \<and> timestamp e = Timestamp (timestamp_now w) \<and> status e = Some ''failed''
           \<and> error e = Some msg \<and> messageId e = None"
  using assms
  by (auto simp add: send_and_log_def Let_def failed_entry_def
        split: axios_result.splits option.splits if_splits)

text \<open>
  A handler either stops before the \<^verbatim>\<open>try\<close> block, with the collection as it was and
  no post, or ends as that block does.
\<close>

lemma checkouts_update_cases:
  "(whatsappLogs (checkouts_update cfg plat w req docs) = docs
      \<and> posts (checkouts_update cfg plat w req docs) = []
      \<and> outcome (checkouts_update cfg plat w req docs)
          \<notin> {MessageSent, SentLoggedFailed, SendFailed})
   \<or> (where_checkoutId (id' (body req)) docs = []
      \<and> (\<exists>q. checkouts_update cfg plat w req docs =
             send_and_log cfg plat w (checkout_messageData cfg q (customerName (body req)))
               (getFullName (body req)) q (id' (body req)) docs))"
  by (auto simp add: checkouts_update_def Let_def split: option.splits sum.splits)


text \<open>
  One delivery to the checkout handler leaves the collection as it is, or adds one
  document under the event id, and the second only when no document has that id yet.
\<close>

lemma checkouts_update_logs:
  "whatsappLogs (checkouts_update cfg plat w req docs) = docs
   \<or> (where_checkoutId (id' (body req)) docs = []
      \<and> (\<exists>e. checkoutId e = id' (body req)
             \<and> whatsappLogs (checkouts_update cfg plat w req docs) = docs @ [e]))"
  using checkouts_update_cases [of cfg plat w req docs] send_and_log_one_document
  by metis



lemma checkouts_update_sent:
  assumes "outcome (checkouts_update cfg plat w req docs) = MessageSent"
  shows "\<exists>e i s. whatsappLogs (checkouts_update cfg plat w req docs) = docs @ [e]
           \<and> timestamp e = Missing \<and> messageId e = Some i \<and> status e = Some s
           \<and> error e = None"
proof -
  obtain q where run: "checkouts_update cfg plat w req docs =
      send_and_log cfg plat w (checkout_messageData cfg q (customerName (body req)))
        (getFullName (body req)) q (id' (body req)) docs"
    using checkouts_update_cases [of cfg plat w req docs] assms by auto
  show ?thesis
    using send_and_log_sent assms unfolding run by blast
qed

lemma checkouts_update_failed:
  assumes "outcome (checkouts_update cfg plat w req docs) \<in> {SentLoggedFailed, SendFailed}"
  shows "\<exists>e msg. whatsappLogs (checkouts_update cfg plat w req docs) = docs @ [e]
           \<and> timestamp e = Timestamp (timestamp_now w) \<and> status e = Some ''failed''
           \<and> error e = Some msg \<and> messageId e = None"
proof -
  obtain q where run: "checkouts_update cfg plat w req docs =
      send_and_log cfg plat w (checkout_messageData cfg q (customerName (body req)))
        (getFullName (body req)) q (id' (body req)) docs"
    using checkouts_update_cases [of cfg plat w req docs] assms by auto
  show ?thesis
    using send_and_log_failed assms unfolding run by blast
qed

text \<open>The order handler never reads \<^verbatim>\<open>completed_at\<close>.\<close>

lemma sendStatus_body [simp]:
  "sendStatus cfg plat (req \<lparr> body := b \<rparr>) = sendStatus cfg plat req"
  by (simp add: sendStatus_def split: option.splits)

lemma completed_at_unread [simp]:
  "rawPhone (c \<lparr> completed_at := x \<rparr>) = rawPhone c"
  "getFullName (c \<lparr> completed_at := x \<rparr>) = getFullName c"
  "customerName (c \<lparr> completed_at := x \<rparr>) = customerName c"
  "order_messageData cfg plat p n (c \<lparr> completed_at := x \<rparr>) = order_messageData cfg plat p n c"
  by (simp_all add: rawPhone_def getFullName_def customerName_def order_messageData_def)

lemma orders_create_completed_at:
  "orders_create cfg plat w (req \<lparr> body := (body req) \<lparr> completed_at := x \<rparr> \<rparr>) docs
     = orders_create cfg plat w req docs"
  by (simp add: orders_create_def Let_def split: option.splits sum.splits)

text \<open>The phone resolution, and what a falsy result does in both handlers.\<close>

lemma rawPhone_first_present:
  "rawPhone c = first_present [chain (customer c) contact.phone,
                               chain (shipping_address c) contact.phone,
                               chain (billing_address c) contact.phone]"
  by (cases "chain (customer c) contact.phone"; cases "chain (shipping_address c) contact.phone";
      cases "chain (billing_address c) contact.phone") (simp_all add: rawPhone_def)

lemma all_falsy_rawPhone:
  assumes "\<not> truthy (chain (customer c) contact.phone)"
    and "\<not> truthy (chain (shipping_address c) contact.phone)"
    and "\<not> truthy (chain (billing_address c) contact.phone)"
  shows "\<not> truthy (rawPhone c)"
  using assms
  by (cases "chain (customer c) contact.phone"; cases "chain (shipping_address c) contact.phone";
      cases "chain (billing_address c) contact.phone") (simp_all add: rawPhone_def)

lemma falsy_rawPhone_checkouts:
  "\<not> truthy (rawPhone (body req)) \<Longrightarrow>
     posts (checkouts_update cfg plat w req docs) = []
     \<and> whatsappLogs (checkouts_update cfg plat w req docs) = docs"
  by (simp add: checkouts_update_def Let_def split: sum.splits)

lemma falsy_rawPhone_orders:
  "\<not> truthy (rawPhone (body req)) \<Longrightarrow>
     posts (orders_create cfg plat w req docs) = []
     \<and> whatsappLogs (orders_create cfg plat w req docs) = docs"
  by (simp add: orders_create_def Let_def split: sum.splits)


lemma customerName_addresses:
  "customerName (c \<lparr> shipping_address := s, billing_address := b \<rparr>) = customerName c"
  by (simp add: customerName_def)






text \<open>
  The status on a request whose raw body was read: 403 when the header is missing or
  empty, the secret is empty, or the header is not the HMAC of the body; 200 otherwise,
  whatever happens afterwards.
\<close>

lemma response_status:
  assumes "rawBody req = Some text"
  shows "status_code (checkouts_update cfg plat w req docs) =
     (if hmac_header req = None \<or> hmac_header req = Some [] \<or> SHOPIFY_SECRET_KEY cfg = []
         \<or> hmac_header req \<noteq> Some (hmac_sha256_base64 plat (SHOPIFY_SECRET_KEY cfg) text)
      then Some 403 else Some 200)
   \<and> status_code (orders_create cfg plat w req docs) =
     (if hmac_header req = None \<or> hmac_header req = Some [] \<or> SHOPIFY_SECRET_KEY cfg = []
         \<or> hmac_header req \<noteq> Some (hmac_sha256_base64 plat (SHOPIFY_SECRET_KEY cfg) text)
      then Some 403 else Some 200)"
  using assms
  by (auto simp add: checkouts_update_def orders_create_def sendStatus_def Let_def
        split: option.splits sum.splits)

text \<open>The scenario inputs satisfy what the handlers test before the queries.\<close>

lemma signed_chk_1:
  "sendStatus example_config example_platform (signed chk_1) = Inr 200"
  "\<not> truthy (completed_at (body (signed chk_1)))"
  "rawPhone (body (signed chk_1)) = Some ''+919876543210''"
  "parsePhoneNumberFromString example_platform ''+919876543210''
     = Some \<lparr> isValid = True, number = ''+919876543210'' \<rparr>"
  by (simp_all add: sendStatus_def rawPhone_def example_defs)

lemma signed_ord_1:
  "sendStatus example_config example_platform (signed ord_1) = Inr 200"
  "rawPhone (body (signed ord_1)) = Some ''+919876543210''"
  by (simp_all add: sendStatus_def rawPhone_def example_defs)

subsection \<open>C1: redelivery of an event id\<close>

text \<open>
  C1, as amended. When an event id with no document in the collection is delivered twice
  to the checkout-update endpoint, one delivery after the other, the collection holds at
  most one document for that id afterwards (whatever its status). A valid signature need
  not be assumed: a rejected delivery writes nothing.
\<close>

theorem checkout_redelivery_logs_at_most_once:
  assumes "id' (body r1) = i" and "id' (body r2) = i" and "where_checkoutId i docs = []"
  shows "length (where_checkoutId i
           (whatsappLogs (checkouts_update cfg plat w2 r2
              (whatsappLogs (checkouts_update cfg plat w1 r1 docs))))) \<le> 1"
proof -
  let ?d1 = "whatsappLogs (checkouts_update cfg plat w1 r1 docs)"
  let ?d2 = "whatsappLogs (checkouts_update cfg plat w2 r2 ?d1)"
  have one: "length (where_checkoutId i ?d1) \<le> 1"
    using checkouts_update_logs [of cfg plat w1 r1 docs] assms
    by (auto simp add: where_checkoutId_single)
  have "?d2 = ?d1 \<or> (where_checkoutId i ?d1 = [] \<and> (\<exists>e. checkoutId e = i \<and> ?d2 = ?d1 @ [e]))"
    using checkouts_update_logs [of cfg plat w2 r2 ?d1] assms by simp
  then show ?thesis
    using one by (auto simp add: where_checkoutId_single)
qed

text \<open>
  The theorem at the checkout \<^verbatim>\<open>chk_1\<close>, delivered twice after an old document of the
  same recipient.
\<close>

theorem checkout_redelivery_logs_at_most_once_witness:
  "id' (body (signed chk_1)) = ''chk_1''
   \<and> where_checkoutId ''chk_1'' [prior (Timestamp 1600000000000)] = []
   \<and> length (where_checkoutId ''chk_1''
         (whatsappLogs (checkouts_update example_config example_platform example_world (signed chk_1)
            (whatsappLogs (checkouts_update example_config example_platform example_world
               (signed chk_1) [prior (Timestamp 1600000000000)]))))) \<le> 1"
proof -
  have a: "id' (body (signed chk_1)) = ''chk_1''"
    by (simp add: signed_def chk_1_def)
  have b: "where_checkoutId ''chk_1'' [prior (Timestamp 1600000000000)] = []"
    by (simp add: where_checkoutId_def prior_def)
  show ?thesis
    using a b checkout_redelivery_logs_at_most_once [OF a a b] by simp
qed

text \<open>
  C1 as stated fails on the order-create endpoint, which asks the collection nothing:
  the order \<^verbatim>\<open>ord_1\<close>, delivered twice with a valid signature to an empty collection,
  leaves two documents with that id.
\<close>

theorem order_redelivery_logs_twice:
  "sendStatus example_config example_platform (signed ord_1) = Inr 200
   \<and> length (where_checkoutId ''ord_1''
         (whatsappLogs (orders_create example_config example_platform example_world (signed ord_1)
            (whatsappLogs (orders_create example_config example_platform example_world
               (signed ord_1) []))))) = 2"
  by (simp add: handler_defs example_defs)

subsection \<open>C2: an order inside the cooldown window\<close>

text \<open>
  C2, as amended. The order-create endpoint has no cooldown test: for every order event
  with a valid signature and a valid recipient phone it makes exactly one post and adds
  exactly one document, for that phone and that event id, whatever the collection holds.
\<close>

theorem orders_create_ignores_the_log:
  assumes "sendStatus cfg plat req = Inr 200"
    and "rawPhone (body req) = Some raw" and "raw \<noteq> []"
    and "parsePhoneNumberFromString plat raw = Some pn" and "isValid pn"
  shows "posts (orders_create cfg plat w req docs) =
           [post_request cfg
              (order_messageData cfg plat (number pn) (customerName (body req)) (body req))]
         \<and> (\<exists>e. whatsappLogs (orders_create cfg plat w req docs) = docs @ [e]
                \<and> log_entry.phone e = number pn \<and> checkoutId e = id' (body req))"
proof -
  have run: "orders_create cfg plat w req docs =
      send_and_log cfg plat w
        (order_messageData cfg plat (number pn) (customerName (body req)) (body req))
        (getFullName (body req)) (number pn) (id' (body req)) docs"
    using assms by (simp add: orders_create_def Let_def)
  obtain e where "whatsappLogs (orders_create cfg plat w req docs) = docs @ [e]"
    and "log_entry.phone e = number pn" and "checkoutId e = id' (body req)"
    using send_and_log_one_document unfolding run by blast
  then show ?thesis
    using run by auto
qed

text \<open>
  The theorem at the order \<^verbatim>\<open>ord_1\<close>, with a document of the same recipient one hour
  old in the collection.
\<close>

theorem orders_create_ignores_the_log_witness:
  "sendStatus example_config example_platform (signed ord_1) = Inr 200
   \<and> rawPhone (body (signed ord_1)) = Some ''+919876543210''
   \<and> parsePhoneNumberFromString example_platform ''+919876543210''
       = Some \<lparr> isValid = True, number = ''+919876543210'' \<rparr>
   \<and> length (posts (orders_create example_config example_platform example_world (signed ord_1)
        [prior (Timestamp 1700000000000)])) = 1
   \<and> length (whatsappLogs (orders_create example_config example_platform example_world
        (signed ord_1) [prior (Timestamp 1700000000000)])) = 2"
proof -
  note a = signed_ord_1(1) and b = signed_ord_1(2) and c = signed_chk_1(4)
  have d: "isValid \<lparr> isValid = True, number = ''+919876543210'' \<rparr>"
    by simp
  show ?thesis
    using a b c
      orders_create_ignores_the_log [OF a b _ c d, of example_world
        "[prior (Timestamp 1700000000000)]"]
    by auto
qed

text \<open>
  C2 as stated fails: the collection holds a document for \<^verbatim>\<open>+919876543210\<close> under
  another event id, stamped one hour before the order is processed; the order handler
  posts the message and adds a second document.
\<close>

theorem order_within_cooldown_is_sent:
  "now example_world - 1700000000000 < 24 * 60 * 60 * 1000
   \<and> sendStatus example_config example_platform (signed ord_1) = Inr 200
   \<and> checkoutId (prior (Timestamp 1700000000000)) \<noteq> id' ord_1
   \<and> log_entry.phone (prior (Timestamp 1700000000000)) = ''+919876543210''
   \<and> length (posts (orders_create example_config example_platform example_world (signed ord_1)
        [prior (Timestamp 1700000000000)])) = 1
   \<and> length (whatsappLogs (orders_create example_config example_platform example_world
        (signed ord_1) [prior (Timestamp 1700000000000)])) = 2"
  by (simp add: handler_defs example_defs)

subsection \<open>C3: the first checkout on an empty collection\<close>

text \<open>
  C3 fails on the code. For every checkout-update event with a valid signature, no
  \<^verbatim>\<open>completed_at\<close> and a valid phone, delivered to an empty collection, the handler
  throws at line 233 (\<^verbatim>\<open>docs[0]\<close> of an empty result) after the status 200 was sent:
  nothing is posted and nothing is written.
\<close>

theorem checkouts_update_throws_on_empty_log:
  assumes "sendStatus cfg plat req = Inr 200"
    and "\<not> truthy (completed_at (body req))"
    and "rawPhone (body req) = Some raw" and "raw \<noteq> []"
    and "parsePhoneNumberFromString plat raw = Some pn" and "isValid pn"
  shows "checkouts_update cfg plat w req [] =
           \<lparr> status_code = Some 200, outcome = Threw TypeError, whatsappLogs = [], posts = [] \<rparr>"
  using assms
  by (simp add: checkouts_update_def Let_def where_checkoutId_def where_phone_def
        orderBy_timestamp_desc_def limit_def cooldown_def stop_def)

text \<open>The theorem at the scenario of the specification: \<^verbatim>\<open>chk_1\<close>, no earlier document.\<close>

theorem checkouts_update_throws_on_empty_log_witness:
  "sendStatus example_config example_platform (signed chk_1) = Inr 200
   \<and> \<not> truthy (completed_at (body (signed chk_1)))
   \<and> rawPhone (body (signed chk_1)) = Some ''+919876543210''
   \<and> parsePhoneNumberFromString example_platform ''+919876543210''
       = Some \<lparr> isValid = True, number = ''+919876543210'' \<rparr>
   \<and> checkouts_update example_config example_platform example_world (signed chk_1) [] =
       \<lparr> status_code = Some 200, outcome = Threw TypeError, whatsappLogs = [], posts = [] \<rparr>"
proof -
  note a = signed_chk_1(1) and b = signed_chk_1(2) and c = signed_chk_1(3) and d = signed_chk_1(4)
  have e: "isValid \<lparr> isValid = True, number = ''+919876543210'' \<rparr>"
    by simp
  show ?thesis
    using a b c d checkouts_update_throws_on_empty_log [OF a b c _ d e, of example_world]
    by simp
qed

subsection \<open>C4: the timestamp of a written document\<close>

text \<open>
  C4 fails on the code. Whenever the checkout handler reaches its \<^verbatim>\<open>try\<close> block it adds
  exactly one document, and how it ends is fixed by the answer of the API. When the API
  answers with a first message that has an id and a status, the document carries that id
  and status and has no \<^verbatim>\<open>timestamp\<close> field. When the answer lacks the id or the
  status, the message was sent but the \<^verbatim>\<open>add\<close> throws and the \<^verbatim>\<open>catch\<close> block writes a
  document with status "failed", an error text and a timestamp, as it does when the post
  is rejected.
\<close>

theorem sent_document_has_no_timestamp:
  "(outcome (checkouts_update cfg plat w req docs) \<in> {MessageSent, SentLoggedFailed, SendFailed}
      \<longrightarrow> (\<exists>q. outcome (checkouts_update cfg plat w req docs) =
                   (case answer w (post_request cfg
                                     (checkout_messageData cfg q (customerName (body req)))) of
                      Resolved messages \<Rightarrow>
                        (case messages of
                           [] \<Rightarrow> SentLoggedFailed
                         | m # _ \<Rightarrow>
                             if wa_id m = None \<or> message_status m = None
                             then SentLoggedFailed else MessageSent)
                    | Rejected response_data message \<Rightarrow> SendFailed)))
   \<and> (outcome (checkouts_update cfg plat w req docs) = MessageSent
      \<longrightarrow> (\<exists>e i s. whatsappLogs (checkouts_update cfg plat w req docs) = docs @ [e]
                  \<and> timestamp e = Missing \<and> messageId e = Some i \<and> status e = Some s
                  \<and> error e = None))
   \<and> (outcome (checkouts_update cfg plat w req docs) \<in> {SentLoggedFailed, SendFailed}
      \<longrightarrow> (\<exists>e msg. whatsappLogs (checkouts_update cfg plat w req docs) = docs @ [e]
                  \<and> timestamp e = Timestamp (timestamp_now w) \<and> status e = Some ''failed''
                  \<and> error e = Some msg \<and> messageId e = None))"
proof (intro conjI impI)
  assume sends: "outcome (checkouts_update cfg plat w req docs)
                   \<in> {MessageSent, SentLoggedFailed, SendFailed}"
  then obtain q where run: "checkouts_update cfg plat w req docs =
      send_and_log cfg plat w (checkout_messageData cfg q (customerName (body req)))
        (getFullName (body req)) q (id' (body req)) docs"
    using checkouts_update_cases [of cfg plat w req docs] by auto
  have "outcome (checkouts_update cfg plat w req docs) =
          (case answer w (post_request cfg
                            (checkout_messageData cfg q (customerName (body req)))) of
             Resolved messages \<Rightarrow>
               (case messages of
                  [] \<Rightarrow> SentLoggedFailed
                | m # _ \<Rightarrow>
                    if wa_id m = None \<or> message_status m = None
                    then SentLoggedFailed else MessageSent)
           | Rejected response_data message \<Rightarrow> SendFailed)"
    unfolding run
    by (simp add: send_and_log_def Let_def undefined_field_def sent_entry_def
          split: axios_result.splits option.splits list.splits)
  then show "\<exists>q. outcome (checkouts_update cfg plat w req docs) =
          (case answer w (post_request cfg
                            (checkout_messageData cfg q (customerName (body req)))) of
             Resolved messages \<Rightarrow>
               (case messages of
                  [] \<Rightarrow> SentLoggedFailed
                | m # _ \<Rightarrow>
                    if wa_id m = None \<or> message_status m = None
                    then SentLoggedFailed else MessageSent)
           | Rejected response_data message \<Rightarrow> SendFailed)"
    by blast
next
  assume "outcome (checkouts_update cfg plat w req docs) = MessageSent"
  then show "\<exists>e i s. whatsappLogs (checkouts_update cfg plat w req docs) = docs @ [e]
                  \<and> timestamp e = Missing \<and> messageId e = Some i \<and> status e = Some s
                  \<and> error e = None"
    by (rule checkouts_update_sent)
next
  assume "outcome (checkouts_update cfg plat w req docs) \<in> {SentLoggedFailed, SendFailed}"
  then show "\<exists>e msg. whatsappLogs (checkouts_update cfg plat w req docs) = docs @ [e]
                  \<and> timestamp e = Timestamp (timestamp_now w) \<and> status e = Some ''failed''
                  \<and> error e = Some msg \<and> messageId e = None"
    by (rule checkouts_update_failed)
qed

text \<open>
  The theorem at \<^verbatim>\<open>chk_1\<close>, delivered after an old stamped document of the recipient
  (which lets the cooldown test pass): once with the API answering an id and a status,
  once with an answer that has no status.
\<close>

theorem sent_document_has_no_timestamp_witness:
  "outcome (checkouts_update example_config example_platform example_world (signed chk_1)
      [prior (Timestamp 1600000000000)]) = MessageSent
   \<and> (\<exists>e i s. whatsappLogs (checkouts_update example_config example_platform example_world
              (signed chk_1) [prior (Timestamp 1600000000000)])
            = [prior (Timestamp 1600000000000)] @ [e]
          \<and> timestamp e = Missing \<and> messageId e = Some i \<and> status e = Some s \<and> error e = None)
   \<and> outcome (checkouts_update example_config example_platform terse_world (signed chk_1)
      [prior (Timestamp 1600000000000)]) = SentLoggedFailed
   \<and> (\<exists>e msg. whatsappLogs (checkouts_update example_config example_platform terse_world
              (signed chk_1) [prior (Timestamp 1600000000000)])
            = [prior (Timestamp 1600000000000)] @ [e]
          \<and> timestamp e = Timestamp (timestamp_now terse_world) \<and> status e = Some ''failed''
          \<and> error e = Some msg \<and> messageId e = None)"
proof -
  have a: "outcome (checkouts_update example_config example_platform example_world (signed chk_1)
      [prior (Timestamp 1600000000000)]) = MessageSent"
    by (simp add: handler_defs example_defs)
  have b: "outcome (checkouts_update example_config example_platform terse_world (signed chk_1)
      [prior (Timestamp 1600000000000)]) = SentLoggedFailed"
    by (simp add: handler_defs example_defs)
  show ?thesis
    using a b
      sent_document_has_no_timestamp [of example_config example_platform example_world
        "signed chk_1" "[prior (Timestamp 1600000000000)]"]
      sent_document_has_no_timestamp [of example_config example_platform terse_world
        "signed chk_1" "[prior (Timestamp 1600000000000)]"]
    by simp
qed

subsection \<open>C5: a latest document without a timestamp\<close>

text \<open>
  C5 fails on the code. When the cooldown query returns a document whose
  \<^verbatim>\<open>timestamp\<close> is not a timestamp, the checkout handler does not go on to send: it
  throws at line 233 (\<^verbatim>\<open>toDate\<close> of a null or undefined value), posts nothing and
  writes nothing.
\<close>

theorem cooldown_throws_on_unset_timestamp:
  assumes "sendStatus cfg plat req = Inr 200"
    and "\<not> truthy (completed_at (body req))"
    and "rawPhone (body req) = Some raw" and "raw \<noteq> []"
    and "parsePhoneNumberFromString plat raw = Some pn" and "isValid pn"
    and "where_checkoutId (id' (body req)) docs = []"
    and "limit 1 (orderBy_timestamp_desc (where_phone (number pn) docs)) = d # ds"
    and "\<not> is_Timestamp (timestamp d)"
  shows "checkouts_update cfg plat w req docs =
           \<lparr> status_code = Some 200, outcome = Threw TypeError, whatsappLogs = docs, posts = [] \<rparr>"
proof -
  have "cooldown (now w) (d # ds) = Inl TypeError"
    using assms(9) by (cases "timestamp d") (simp_all add: cooldown_def)
  then show ?thesis
    using assms by (simp add: checkouts_update_def Let_def stop_def)
qed

text \<open>
  The theorem at \<^verbatim>\<open>chk_1\<close>, with one document of the recipient whose timestamp is
  \<^verbatim>\<open>null\<close> in the collection.
\<close>

theorem cooldown_throws_on_unset_timestamp_witness:
  "sendStatus example_config example_platform (signed chk_1) = Inr 200
   \<and> \<not> truthy (completed_at (body (signed chk_1)))
   \<and> rawPhone (body (signed chk_1)) = Some ''+919876543210''
   \<and> parsePhoneNumberFromString example_platform ''+919876543210''
       = Some \<lparr> isValid = True, number = ''+919876543210'' \<rparr>
   \<and> where_checkoutId (id' (body (signed chk_1))) [prior Null] = []
   \<and> limit 1 (orderBy_timestamp_desc (where_phone ''+919876543210'' [prior Null])) = [prior Null]
   \<and> \<not> is_Timestamp (timestamp (prior Null))
   \<and> checkouts_update example_config example_platform example_world (signed chk_1) [prior Null] =
       \<lparr> status_code = Some 200, outcome = Threw TypeError, whatsappLogs = [prior Null],
         posts = [] \<rparr>"
proof -
  note a = signed_chk_1(1) and b = signed_chk_1(2) and c = signed_chk_1(3) and d = signed_chk_1(4)
  have e: "isValid \<lparr> isValid = True, number = ''+919876543210'' \<rparr>"
    by simp
  have f: "where_checkoutId (id' (body (signed chk_1))) [prior Null] = []"
    by (simp add: where_checkoutId_def example_defs)
  have g: "limit 1 (orderBy_timestamp_desc
             (where_phone (number \<lparr> isValid = True, number = ''+919876543210'' \<rparr>) [prior Null]))
           = prior Null # []"
    by (simp add: limit_def orderBy_timestamp_desc_def where_phone_def prior_def)
  have h: "\<not> is_Timestamp (timestamp (prior Null))"
    by (simp add: prior_def)
  show ?thesis
    using a b c d f g h
      cooldown_throws_on_unset_timestamp [OF a b c _ d e f g h, of example_world]
    by simp
qed

subsection \<open>C6: events already completed\<close>

text \<open>
  C6, as amended. For every checkout-update event whose \<^verbatim>\<open>completed_at\<close> is a
  non-empty string, nothing is posted and nothing is written. The order-create endpoint
  does not read \<^verbatim>\<open>completed_at\<close>: setting it to any value changes nothing of what the
  handler does.
\<close>

theorem completed_checkout_sends_nothing:
  "(truthy (completed_at (body req)) \<longrightarrow>
      posts (checkouts_update cfg plat w req docs) = []
      \<and> whatsappLogs (checkouts_update cfg plat w req docs) = docs)
   \<and> orders_create cfg plat w (req \<lparr> body := (body req) \<lparr> completed_at := x \<rparr> \<rparr>) docs
       = orders_create cfg plat w req docs"
  using orders_create_completed_at [where req = req and x = x]
  by (simp add: checkouts_update_def Let_def split: sum.splits)

text \<open>The theorem at the checkout \<^verbatim>\<open>chk_1\<close> with \<^verbatim>\<open>completed_at\<close> set.\<close>

theorem completed_checkout_sends_nothing_witness:
  "truthy (completed_at (body (signed (chk_1 \<lparr> completed_at := Some ''2024-01-01T10:00:00Z'' \<rparr>))))
   \<and> posts (checkouts_update example_config example_platform example_world
        (signed (chk_1 \<lparr> completed_at := Some ''2024-01-01T10:00:00Z'' \<rparr>))
        [prior (Timestamp 1600000000000)]) = []
   \<and> whatsappLogs (checkouts_update example_config example_platform example_world
        (signed (chk_1 \<lparr> completed_at := Some ''2024-01-01T10:00:00Z'' \<rparr>))
        [prior (Timestamp 1600000000000)]) = [prior (Timestamp 1600000000000)]"
proof -
  have a: "truthy (completed_at (body (signed (chk_1 \<lparr> completed_at := Some ''2024-01-01T10:00:00Z'' \<rparr>))))"
    by (simp add: signed_def)
  show ?thesis
    using a
      completed_checkout_sends_nothing [where req = "signed (chk_1 \<lparr> completed_at := Some ''2024-01-01T10:00:00Z'' \<rparr>)"
        and cfg = example_config and plat = example_platform and w = example_world
        and docs = "[prior (Timestamp 1600000000000)]"]
    by simp
qed

text \<open>
  C6 as stated fails on the order-create endpoint: the order \<^verbatim>\<open>ord_1\<close> with
  \<^verbatim>\<open>completed_at\<close> set and a valid signature is posted and logged.
\<close>

theorem completed_order_is_sent:
  "truthy (completed_at (body (signed ord_completed)))
   \<and> sendStatus example_config example_platform (signed ord_completed) = Inr 200
   \<and> outcome (orders_create example_config example_platform example_world (signed ord_completed) [])
       = MessageSent
   \<and> length (posts (orders_create example_config example_platform example_world
        (signed ord_completed) [])) = 1
   \<and> length (whatsappLogs (orders_create example_config example_platform example_world
        (signed ord_completed) [])) = 1"
  by (simp add: handler_defs example_defs)

subsection \<open>C7: the response status\<close>

text \<open>
  C7 fails on the code. For every request that has a signature header, while the secret
  is set, and whose body \<^verbatim>\<open>express.json\<close> did not read, both handlers throw at
  \<^verbatim>\<open>req.rawBody.toString\<close> (lines 175 and 329) before any status is sent: the handler
  answers neither 403 nor 200, posts nothing and writes nothing.
\<close>

theorem unread_body_gets_no_status:
  assumes "hmac_header req = Some hmac" and "hmac \<noteq> []" and "SHOPIFY_SECRET_KEY cfg \<noteq> []"
    and "rawBody req = None"
  shows "checkouts_update cfg plat w req docs =
           \<lparr> status_code = None, outcome = Threw TypeError, whatsappLogs = docs, posts = [] \<rparr>
         \<and> orders_create cfg plat w req docs =
           \<lparr> status_code = None, outcome = Threw TypeError, whatsappLogs = docs, posts = [] \<rparr>"
  using assms
  by (simp add: checkouts_update_def orders_create_def sendStatus_def unanswered_def)

text \<open>The theorem at a request with the signature of \<^verbatim>\<open>chk_1\<close> and no raw body.\<close>

theorem unread_body_gets_no_status_witness:
  "hmac_header (unread chk_1) = Some ''shpss/payload''
   \<and> SHOPIFY_SECRET_KEY example_config \<noteq> []
   \<and> rawBody (unread chk_1) = None
   \<and> checkouts_update example_config example_platform example_world (unread chk_1) [] =
       \<lparr> status_code = None, outcome = Threw TypeError, whatsappLogs = [], posts = [] \<rparr>
   \<and> orders_create example_config example_platform example_world (unread chk_1) [] =
       \<lparr> status_code = None, outcome = Threw TypeError, whatsappLogs = [], posts = [] \<rparr>"
proof -
  have a: "hmac_header (unread chk_1) = Some ''shpss/payload''"
    by (simp add: unread_def)
  have b: "''shpss/payload'' \<noteq> []"
    by simp
  have c: "SHOPIFY_SECRET_KEY example_config \<noteq> []"
    by (simp add: example_config_def)
  have d: "rawBody (unread chk_1) = None"
    by (simp add: unread_def)
  show ?thesis
    using a c d unread_body_gets_no_status [OF a b c d, of example_platform example_world "[]"]
    by simp
qed

subsection \<open>C8: the recipient phone\<close>

text \<open>
  C8 fails on the code. A payload whose \<^verbatim>\<open>customer.phone\<close> is the empty string and
  whose shipping address has the phone \<^verbatim>\<open>+919876543210\<close> resolves to the empty string,
  and both handlers end with "No phone number found" and no post; the same payload with
  no \<^verbatim>\<open>customer.phone\<close> is sent to the shipping phone by both.
\<close>

theorem empty_customer_phone_is_not_skipped:
  "chain (customer chk_empty_phone) contact.phone = Some []
   \<and> chain (shipping_address chk_empty_phone) contact.phone = Some ''+919876543210''
   \<and> rawPhone chk_empty_phone = Some []
   \<and> sendStatus example_config example_platform (signed chk_empty_phone) = Inr 200
   \<and> outcome (orders_create example_config example_platform example_world (signed chk_empty_phone) [])
       = NoPhone
   \<and> posts (orders_create example_config example_platform example_world (signed chk_empty_phone) [])
       = []
   \<and> outcome (orders_create example_config example_platform example_world (signed chk_absent_phone) [])
       = MessageSent
   \<and> outcome (checkouts_update example_config example_platform example_world
        (signed chk_empty_phone) [prior (Timestamp 1600000000000)]) = NoPhone
   \<and> posts (checkouts_update example_config example_platform example_world
        (signed chk_empty_phone) [prior (Timestamp 1600000000000)]) = []
   \<and> outcome (checkouts_update example_config example_platform example_world
        (signed chk_absent_phone) [prior (Timestamp 1600000000000)]) = MessageSent"
  by (simp add: handler_defs example_defs)

text \<open>
  What the code does do: the raw phone is the first of the three values that is neither
  null nor undefined, and when that value is absent or empty (in particular when all
  three are absent or empty) neither handler posts or writes anything.
\<close>

lemma rawPhone_resolution:
  "rawPhone (body req) = first_present [chain (customer (body req)) contact.phone,
                               chain (shipping_address (body req)) contact.phone,
                               chain (billing_address (body req)) contact.phone]
   \<and> ((\<not> truthy (rawPhone (body req))
        \<or> (\<not> truthy (chain (customer (body req)) contact.phone)
           \<and> \<not> truthy (chain (shipping_address (body req)) contact.phone)
           \<and> \<not> truthy (chain (billing_address (body req)) contact.phone)))
       \<longrightarrow> posts (checkouts_update cfg plat w req docs) = []
           \<and> whatsappLogs (checkouts_update cfg plat w req docs) = docs
           \<and> posts (orders_create cfg plat w req docs) = []
           \<and> whatsappLogs (orders_create cfg plat w req docs) = docs)"
  using rawPhone_first_present [of "body req"] all_falsy_rawPhone [of "body req"]
    falsy_rawPhone_checkouts [of req cfg plat w docs] falsy_rawPhone_orders [of req cfg plat w docs]
  by blast

subsection \<open>C10: the name in the message and the name in the log\<close>



end
